theory Spec2Isabelle
  imports Complex_Main
begin

section \<open>Python values, errors and formatting\<close>

text \<open>
  The program is \<^verbatim>\<open>scripts/chorales.py\<close>, a Python 2 script. Every exception the code
  can raise on the paths modelled here is a value of \<open>error\<close>; a computation that may
  raise returns \<open>error + 'a\<close>, with \<open>Inl\<close> for the exception.
\<close>

datatype error =
    AssertionError string
  | TypeError
  | KeyError string
  | UnboundLocalError
  | NameError
  | ValueError
  | IndexError
  | StopIteration
  | UnicodeEncodeError

text \<open>
  The first component of the tuples yielded by \<^verbatim>\<open>_encode_note_duration_tuples\<close> is a
  Python \<^verbatim>\<open>int\<close>; after pitch-class folding it is a string. Both are values of
  \<open>pyval\<close>. Python's \<^verbatim>\<open>==\<close> between an \<^verbatim>\<open>int\<close> and a string is \<^verbatim>\<open>False\<close>, which is
  HOL equality on \<open>pyval\<close>.
\<close>

datatype pyval = PInt int | PStr string

text \<open>Python's \<^verbatim>\<open>+\<close>: numbers add, strings concatenate, a string and a number raise.\<close>

fun py_add :: "pyval \<Rightarrow> pyval \<Rightarrow> error + pyval" where
  "py_add (PInt a) (PInt b) = Inr (PInt (a + b))"
| "py_add (PStr a) (PStr b) = Inr (PStr (a @ b))"
| "py_add (PStr a) (PInt b) = Inl TypeError"
| "py_add (PInt a) (PStr b) = Inl TypeError"

text \<open>A \<^verbatim>\<open>for\<close> loop whose body may raise: the first exception ends the loop.\<close>

fun for_each :: "('a \<Rightarrow> error + 'b) \<Rightarrow> 'a list \<Rightarrow> error + 'b list" where
  "for_each f [] = Inr []"
| "for_each f (x # xs) =
     (case f x of
        Inl e \<Rightarrow> Inl e
      | Inr y \<Rightarrow> (case for_each f xs of Inl e \<Rightarrow> Inl e | Inr ys \<Rightarrow> Inr (y # ys)))"

text \<open>\<^verbatim>\<open>str\<close> of a Python \<^verbatim>\<open>int\<close>: decimal digits, with a minus sign when negative.\<close>

fun str_nat :: "nat \<Rightarrow> string" where
  "str_nat n =
     (if n < 10 then [''0123456789'' ! n]
      else str_nat (n div 10) @ [''0123456789'' ! (n mod 10)])"

declare str_nat.simps [simp del]

definition str_int :: "int \<Rightarrow> string" where
  "str_int i = (if i < 0 then ''-'' @ str_nat (nat (- i)) else str_nat (nat i))"

text \<open>
  A duration in quarter notes (\<^verbatim>\<open>quarterLength\<close>) is a rational number: the library
  returns a \<^verbatim>\<open>float\<close> when the value is a binary fraction and a \<^verbatim>\<open>Fraction\<close>
  otherwise. \<^verbatim>\<open>'{0}'.format\<close> prints a \<^verbatim>\<open>Fraction\<close> as \<^verbatim>\<open>n/d\<close> and a \<^verbatim>\<open>float\<close> in
  decimal notation with at least one digit after the point. \<open>str_float\<close> writes the
  exact decimal expansion of a binary fraction, cut after twelve digits and never in
  exponent notation; it is what Python prints for the values with at most twelve
  significant digits and magnitude between \<open>10\<^sup>-\<^sup>4\<close> and \<open>10\<^sup>1\<^sup>1\<close>, which covers the
  note lengths of a score (\<open>0.125\<close>, \<open>0.25\<close>, \<open>0.5\<close>, \<open>1.0\<close>, \<open>1.5\<close>, \<open>4.0\<close>), and
  differs from Python outside them. The statements below use it at \<open>0.5\<close>, \<open>1.0\<close> and
  \<open>4.0\<close>.
\<close>

fun frac_digits :: "nat \<Rightarrow> rat \<Rightarrow> string" where
  "frac_digits 0 f = []"
| "frac_digits (Suc n) f =
     (if f = 0 then []
      else ''0123456789'' ! nat \<lfloor>f * 10\<rfloor> # frac_digits n (f * 10 - of_int \<lfloor>f * 10\<rfloor>))"

definition str_float :: "rat \<Rightarrow> string" where
  "str_float q =
     (let a = \<bar>q\<bar>; f = a - of_int \<lfloor>a\<rfloor>
      in (if q < 0 then ''-'' else []) @ str_nat (nat \<lfloor>a\<rfloor>) @ ''.'' @
         (if f = 0 then ''0'' else frac_digits 12 f))"

fun is_power_of_two :: "nat \<Rightarrow> bool" where
  "is_power_of_two n =
     (if n \<le> 1 then n = 1 else n mod 2 = 0 \<and> is_power_of_two (n div 2))"

declare is_power_of_two.simps [simp del]

definition format_quarterLength :: "rat \<Rightarrow> string" where
  "format_quarterLength q =
     (let (n, d) = quotient_of q
      in if is_power_of_two (nat d) then str_float q
         else str_int n @ ''/'' @ str_nat (nat d))"

text \<open>\<^verbatim>\<open>'{0}'.format(v)\<close> for a value of the first tuple component.\<close>

fun format_pyval :: "pyval \<Rightarrow> string" where
  "format_pyval (PInt i) = str_int i"
| "format_pyval (PStr s) = s"

text \<open>\<^verbatim>\<open>int(x)\<close> truncates towards zero; \<^verbatim>\<open>range(a, b)\<close> is empty when \<open>b \<le> a\<close>.\<close>

definition py_int :: "rat \<Rightarrow> int" where
  "py_int q = (if 0 \<le> q then \<lfloor>q\<rfloor> else \<lceil>q\<rceil>)"

definition py_range :: "int \<Rightarrow> int \<Rightarrow> int list" where
  "py_range a b = [a..b - 1]"

text \<open>
  \<^verbatim>\<open>dict(pairs)\<close> and a dictionary comprehension insert the pairs one after the other:
  a later pair with the same key replaces the earlier one.
\<close>

definition dict_of :: "('k \<times> 'v) list \<Rightarrow> ('k \<rightharpoonup> 'v)" where
  "dict_of kvs = foldl (\<lambda>m kv. m(fst kv \<mapsto> snd kv)) Map.empty kvs"

text \<open>\<^verbatim>\<open>d[k]\<close> raises \<^verbatim>\<open>KeyError\<close> on a missing key.\<close>

definition subscript :: "(string \<rightharpoonup> 'v) \<Rightarrow> string \<Rightarrow> error + 'v" where
  "subscript d k = (case d k of None \<Rightarrow> Inl (KeyError k) | Some v \<Rightarrow> Inr v)"

text \<open>\<^verbatim>\<open>sep.join(xs)\<close>.\<close>

fun join :: "'a list \<Rightarrow> 'a list list \<Rightarrow> 'a list" where
  "join sep [] = []"
| "join sep [x] = x"
| "join sep (x # y # ys) = x @ sep @ join sep (y # ys)"


section \<open>Scores\<close>

text \<open>
  A score is supplied by the \<^verbatim>\<open>music21\<close> library. The code reads \<^verbatim>\<open>part.flat.notesAndRests\<close>
  in one place and iterates \<^verbatim>\<open>part\<close> itself in another, so the model keeps what the two
  differ in: a part is a stream of elements, a measure is an element that contains a
  stream of its own, and a stream holds elements that are neither notes nor rests (key
  signatures, and others such as clefs, instruments and time signatures). Elements are
  listed in the order of their offsets. A note carries its MIDI pitch number; every
  element has a duration in quarter notes; a key signature is represented by the pitch
  class of its major tonic and has duration zero.
\<close>

datatype element =
    Note int rat
  | Rest rat
  | Chord "int list" rat
  | Measure rat "element list"
  | KeySignature int
  | Other rat

fun quarterLength :: "element \<Rightarrow> rat" where
  "quarterLength (Note m q) = q"
| "quarterLength (Rest q) = q"
| "quarterLength (Chord ms q) = q"
| "quarterLength (Measure q es) = q"
| "quarterLength (KeySignature c) = 0"
| "quarterLength (Other q) = q"

fun isNote :: "element \<Rightarrow> bool" where
  "isNote (Note m q) = True"
| "isNote e = False"

text \<open>
  \<^verbatim>\<open>nr.midi\<close> is read on notes only (the value at other elements is never used). The
  model returns the number the note carries, which is what the library returns for a
  number from 0 to 127; the library folds a number outside that range into it, and no
  statement below reads such a note.
\<close>

fun midi :: "element \<Rightarrow> int" where
  "midi (Note m q) = m"
| "midi e = 0"

text \<open>\<^verbatim>\<open>.flat\<close>: the elements of a stream with every contained stream replaced by its elements.\<close>

fun flat_element :: "element \<Rightarrow> element list" where
  "flat_element (Measure q es) = concat (map flat_element es)"
| "flat_element e = [e]"

definition flat :: "element list \<Rightarrow> element list" where
  "flat es = concat (map flat_element es)"

text \<open>\<^verbatim>\<open>.notesAndRests\<close>: the notes, rests and chords of a stream.\<close>

fun is_note_or_rest :: "element \<Rightarrow> bool" where
  "is_note_or_rest (Note m q) = True"
| "is_note_or_rest (Rest q) = True"
| "is_note_or_rest (Chord ms q) = True"
| "is_note_or_rest e = False"

definition notesAndRests :: "element list \<Rightarrow> element list" where
  "notesAndRests es = filter is_note_or_rest es"

record part =
  part_id :: string
  part_elements :: "element list"

record score =
  metadata_title :: string
  time_signatures :: "string list"
  parts :: "part list"

text \<open>The key that \<^verbatim>\<open>score.analyze('key')\<close> returns: the name of the tonic and the mode.\<close>

record key =
  tonic_name :: string
  mode :: string


section \<open>Voice canonicalizer\<close>

text \<open>
  \<^verbatim>\<open>_standardize_part_ids\<close>. The table \<^verbatim>\<open>ids\<close> maps a canonical name to its synonyms;
  \<^verbatim>\<open>id_to_name\<close> is the dictionary built from it by the comprehension
  \<^verbatim>\<open>{id:name for name in ids for id in ids[name]}\<close>. No synonym occurs under two names, so
  the order in which the comprehension visits the names does not matter.
\<close>

definition ids :: "(string \<times> string list) list" where
  "ids =
     [(''Soprano'',
         [''Soprano'', ''S.'', ''Soprano 1'',
          ''Soprano'' @ [CHR 0x0D] @ ''Oboe 1'' @ [CHR 0x0D] @ ''Violin1'']),
      (''Alto'', [''Alto'', ''A.'']),
      (''Tenor'', [''Tenor'', ''T.'']),
      (''Bass'', [''Bass'', ''B.''])]"

definition id_to_name :: "string \<rightharpoonup> string" where
  "id_to_name = dict_of (concat (map (\<lambda>(name, syns). map (\<lambda>i. (i, name)) syns) ids))"

definition all_ids :: "string set" where
  "all_ids = dom id_to_name"

text \<open>The loop \<^verbatim>\<open>for part in bwv_score.parts: part.id = id_to_name[part.id]\<close>.\<close>

definition rename_part :: "part \<Rightarrow> error + part" where
  "rename_part p =
     (case subscript id_to_name (part_id p) of
        Inl e \<Rightarrow> Inl e
      | Inr name \<Rightarrow> Inr (p\<lparr>part_id := name\<rparr>))"

text \<open>
  The function changes the parts of the score object in place and returns the object, or
  returns \<^verbatim>\<open>None\<close>. The model returns the state of the score object after the call,
  paired with \<open>True\<close> when the object is returned and \<open>False\<close> when \<^verbatim>\<open>None\<close> is.
\<close>

definition standardize_part_ids :: "score \<Rightarrow> error + (score \<times> bool)" where
  "standardize_part_ids bwv_score =
     (if list_all (\<lambda>p. part_id p \<in> all_ids) (parts bwv_score)
      then (case for_each rename_part (parts bwv_score) of
              Inl e \<Rightarrow> Inl e
            | Inr ps \<Rightarrow> Inr (bwv_score\<lparr>parts := ps\<rparr>, True))
      else Inr (bwv_score, False))"

text \<open>
  \<^verbatim>\<open>prepare_standard\<close>: the body of its loop over the scores, on the data set collected
  so far and the lines printed so far. \<^verbatim>\<open>if sc:\<close> is false for \<^verbatim>\<open>None\<close>; for a score
  object the library decides, which is the parameter \<open>truth\<close>.
\<close>

definition prepare_standard_step ::
  "(score \<Rightarrow> bool) \<Rightarrow> score \<Rightarrow> score list \<times> string list \<Rightarrow> error + (score list \<times> string list)"
where
  "prepare_standard_step truth sc st =
     (let bwv_id = metadata_title sc
      in case standardize_part_ids sc of
           Inl e \<Rightarrow> Inl e
         | Inr (sc', returned) \<Rightarrow>
             if returned \<and> truth sc'
             then Inr (fst st @ [sc'], snd st @ [''Processing '' @ bwv_id])
             else Inr (fst st, snd st @ [''Skipping '' @ bwv_id @ '', error extracting parts'']))"

fun prepare_standard_loop ::
  "(score \<Rightarrow> bool) \<Rightarrow> score list \<Rightarrow> score list \<times> string list \<Rightarrow> error + (score list \<times> string list)"
where
  "prepare_standard_loop truth [] st = Inr st"
| "prepare_standard_loop truth (sc # scs) st =
     (case prepare_standard_step truth sc st of
        Inl e \<Rightarrow> Inl e
      | Inr st' \<Rightarrow> prepare_standard_loop truth scs st')"

text \<open>
  With the flag \<^verbatim>\<open>subset\<close> set, the first five scores are taken with \<^verbatim>\<open>next\<close>, which raises
  \<^verbatim>\<open>StopIteration\<close> when the corpus has fewer.
\<close>

definition prepare_standard ::
  "(score \<Rightarrow> bool) \<Rightarrow> score list \<Rightarrow> bool \<Rightarrow> error + (score list \<times> string list)"
where
  "prepare_standard truth corpus subset_flag =
     (if subset_flag
      then (if length corpus < 5 then Inl StopIteration
            else prepare_standard_loop truth (take 5 corpus) ([], []))
      else prepare_standard_loop truth corpus ([], []))"


section \<open>Key normalizer\<close>

text \<open>
  \<^verbatim>\<open>_standardize_key\<close>. The two tables give, for the name of a tonic, the number of
  semitones by which the score is transposed.
\<close>

definition majors :: "string \<rightharpoonup> int" where
  "majors = dict_of
     [(''A-'', 4), (''A'', 3), (''B-'', 2), (''B'', 1), (''C'', 0), (''D-'', -1), (''D'', -2),
      (''E-'', -3), (''E'', -4), (''F'', -5), (''F#'', 6), (''G-'', 6), (''G'', 5)]"

definition minors :: "string \<rightharpoonup> int" where
  "minors = dict_of
     [(''A-'', 1), (''A'', 0), (''B-'', -1), (''B'', -2), (''C'', -3), (''D-'', -4), (''D'', -5),
      (''E-'', 6), (''E'', 5), (''F'', 4), (''F#'', 3), (''G-'', 3), (''G'', 2)]"

text \<open>
  The \<^verbatim>\<open>if\<close>/\<^verbatim>\<open>elif\<close> that sets \<^verbatim>\<open>halfSteps\<close>. A tonic that is not in the table raises
  \<^verbatim>\<open>KeyError\<close>; with any other mode \<^verbatim>\<open>halfSteps\<close> is never assigned and its first use
  raises \<^verbatim>\<open>UnboundLocalError\<close>.
\<close>

definition halfSteps_of :: "key \<Rightarrow> error + int" where
  "halfSteps_of k =
     (if mode k = ''major'' then subscript majors (tonic_name k)
      else if mode k = ''minor'' then subscript minors (tonic_name k)
      else Inl UnboundLocalError)"

text \<open>
  \<^verbatim>\<open>score.transpose(halfSteps)\<close> is the library's: it moves every note and chord of the
  score by the given number of semitones. The key signatures are moved by the loop that
  follows it in the code, \<^verbatim>\<open>ks.transpose(halfSteps, inPlace=True)\<close> on every key signature
  of the flattened score.
\<close>

fun transpose_element :: "int \<Rightarrow> element \<Rightarrow> element" where
  "transpose_element h (Note m q) = Note (m + h) q"
| "transpose_element h (Chord ms q) = Chord (map (\<lambda>m. m + h) ms) q"
| "transpose_element h (Measure q es) = Measure q (map (transpose_element h) es)"
| "transpose_element h e = e"

definition transpose :: "int \<Rightarrow> score \<Rightarrow> score" where
  "transpose h sc =
     sc\<lparr>parts := map (\<lambda>p. p\<lparr>part_elements := map (transpose_element h) (part_elements p)\<rparr>)
                    (parts sc)\<rparr>"

fun transpose_key_signature :: "int \<Rightarrow> element \<Rightarrow> element" where
  "transpose_key_signature h (KeySignature c) = KeySignature ((c + h) mod 12)"
| "transpose_key_signature h (Measure q es) = Measure q (map (transpose_key_signature h) es)"
| "transpose_key_signature h e = e"

definition transpose_key_signatures :: "int \<Rightarrow> score \<Rightarrow> score" where
  "transpose_key_signatures h sc =
     sc\<lparr>parts := map (\<lambda>p. p\<lparr>part_elements := map (transpose_key_signature h) (part_elements p)\<rparr>)
                    (parts sc)\<rparr>"

text \<open>
  The key analysis is the library's and is a parameter, \<open>analyze\<close>, of every function
  that calls \<^verbatim>\<open>score.analyze('key')\<close>.
\<close>

definition standardize_key :: "(score \<Rightarrow> key) \<Rightarrow> score \<Rightarrow> error + score" where
  "standardize_key analyze sc =
     (case halfSteps_of (analyze sc) of
        Inl e \<Rightarrow> Inl e
      | Inr halfSteps \<Rightarrow> Inr (transpose_key_signatures halfSteps (transpose halfSteps sc)))"

text \<open>
  The pitch class (0 to 11, C is 0) that a tonic name stands for: a step letter followed
  by sharps (\<open>#\<close>) and flats (\<open>-\<close>), as the library writes names. Transposing by \<open>h\<close>
  semitones moves a tonic of class \<open>c\<close> to class \<open>(c + h) mod 12\<close> and keeps the mode.
\<close>

definition step_class :: "char \<rightharpoonup> int" where
  "step_class = dict_of
     [(CHR ''C'', 0), (CHR ''D'', 2), (CHR ''E'', 4), (CHR ''F'', 5), (CHR ''G'', 7),
      (CHR ''A'', 9), (CHR ''B'', 11)]"

fun accidentals :: "string \<Rightarrow> int option" where
  "accidentals [] = Some 0"
| "accidentals (c # cs) =
     (if c = CHR ''#'' then map_option (\<lambda>a. a + 1) (accidentals cs)
      else if c = CHR ''-'' then map_option (\<lambda>a. a - 1) (accidentals cs)
      else None)"

fun pitch_class :: "string \<Rightarrow> int option" where
  "pitch_class [] = None"
| "pitch_class (c # cs) =
     (case (step_class c, accidentals cs) of
        (Some s, Some a) \<Rightarrow> Some ((s + a) mod 12)
      | _ \<Rightarrow> None)"

definition transposed_class :: "int \<Rightarrow> string \<Rightarrow> int option" where
  "transposed_class h name = map_option (\<lambda>c. (c + h) mod 12) (pitch_class name)"

text \<open>The pitches and the key signatures of a score, in the order of the flattened streams.\<close>

fun pitches :: "element \<Rightarrow> int list" where
  "pitches (Note m q) = [m]"
| "pitches (Chord ms q) = ms"
| "pitches (Measure q es) = concat (map pitches es)"
| "pitches e = []"

fun key_signatures :: "element \<Rightarrow> int list" where
  "key_signatures (KeySignature c) = [c]"
| "key_signatures (Measure q es) = concat (map key_signatures es)"
| "key_signatures e = []"

definition score_pitches :: "score \<Rightarrow> int list" where
  "score_pitches sc = concat (map (\<lambda>p. concat (map pitches (part_elements p))) (parts sc))"

definition score_key_signatures :: "score \<Rightarrow> int list" where
  "score_key_signatures sc =
     concat (map (\<lambda>p. concat (map key_signatures (part_elements p))) (parts sc))"


section \<open>Event encoders\<close>

text \<open>
  \<^verbatim>\<open>_encode_note_duration_tuples\<close>: one tuple for every element of
  \<^verbatim>\<open>part.flat.notesAndRests\<close>, the MIDI number of a note and \<open>-1\<close> for anything else.
\<close>

definition encode_note_duration_tuples :: "part \<Rightarrow> (pyval \<times> rat) list" where
  "encode_note_duration_tuples p =
     map (\<lambda>nr. if isNote nr then (PInt (midi nr), quarterLength nr)
               else (PInt (- 1), quarterLength nr))
         (notesAndRests (flat (part_elements p)))"

text \<open>\<^verbatim>\<open>score.getTimeSignatures()[0].ratioString\<close>.\<close>

definition first_time_signature :: "score \<Rightarrow> error + string" where
  "first_time_signature sc =
     (case time_signatures sc of [] \<Rightarrow> Inl IndexError | ts # _ \<Rightarrow> Inr ts)"

subsection \<open>Constant timestep\<close>

text \<open>
  \<^verbatim>\<open>prepare_mono_all_constant_t\<close>. The constants \<^verbatim>\<open>NOTE_START_SYM\<close> and
  \<^verbatim>\<open>FRAMES_PER_CROTCHET\<close> come from the module \<^verbatim>\<open>constants\<close> and are parameters. The
  inner loop \<^verbatim>\<open>for _ in range(1, int(FRAMES_PER_CROTCHET*dur))\<close> appends the bare note
  once per iteration.
\<close>

definition repeated_frames :: "rat \<Rightarrow> pyval \<Rightarrow> rat \<Rightarrow> pyval list" where
  "repeated_frames FRAMES_PER_CROTCHET note dur =
     map (\<lambda>_. note) (py_range 1 (py_int (FRAMES_PER_CROTCHET * dur)))"

definition event_frames :: "pyval \<Rightarrow> rat \<Rightarrow> pyval \<times> rat \<Rightarrow> error + pyval list" where
  "event_frames NOTE_START_SYM FRAMES_PER_CROTCHET nd =
     (case py_add NOTE_START_SYM (fst nd) of
        Inl e \<Rightarrow> Inl e
      | Inr start \<Rightarrow> Inr (start # repeated_frames FRAMES_PER_CROTCHET (fst nd) (snd nd)))"

definition constant_t_pairs_text :: "pyval \<Rightarrow> rat \<Rightarrow> part \<Rightarrow> error + pyval list" where
  "constant_t_pairs_text NOTE_START_SYM FRAMES_PER_CROTCHET p =
     (let note_duration_pairs = encode_note_duration_tuples p
      in if \<not> (\<forall>x \<in> set (map (\<lambda>nd. FRAMES_PER_CROTCHET * snd nd) note_duration_pairs). 1 \<le> x)
         then Inl (AssertionError ''Could not quantize constant timesteps'')
         else (case for_each (event_frames NOTE_START_SYM FRAMES_PER_CROTCHET) note_duration_pairs of
                 Inl e \<Rightarrow> Inl e
               | Inr fs \<Rightarrow> Inr (concat fs)))"

definition prepare_mono_all_constant_t_fn ::
  "pyval \<Rightarrow> rat \<Rightarrow> (score \<Rightarrow> key) \<Rightarrow> score \<Rightarrow> error + (string \<times> pyval list) list"
where
  "prepare_mono_all_constant_t_fn NOTE_START_SYM FRAMES_PER_CROTCHET analyze sc =
     (case first_time_signature sc of
        Inl e \<Rightarrow> Inl e
      | Inr ts \<Rightarrow>
          if ts = ''4/4''
          then (let bwv_id = metadata_title sc
                in case standardize_key analyze sc of
                     Inl e \<Rightarrow> Inl e
                   | Inr sc' \<Rightarrow>
                       let k = analyze sc'
                       in for_each
                            (\<lambda>p. case constant_t_pairs_text NOTE_START_SYM FRAMES_PER_CROTCHET p of
                                    Inl e \<Rightarrow> Inl e
                                  | Inr pairs_text \<Rightarrow>
                                      Inr (bwv_id @ ''-'' @ mode k @ ''-'' @ part_id p @ ''-mono-all'',
                                           pairs_text))
                            (parts sc'))
          else Inr [])"

subsection \<open>Pitch and duration pairs\<close>

text \<open>
  \<^verbatim>\<open>prepare_mono_all\<close>. \<^verbatim>\<open>Note(x[0]).name\<close> is the library's and is the parameter
  \<open>note_name\<close>. The name \<^verbatim>\<open>_get_soprano_part\<close> is not defined in the file; the call is
  the parameter \<open>get_soprano_part\<close>, which may raise.
\<close>

definition fold_pitch_class ::
  "(pyval \<Rightarrow> error + string) \<Rightarrow> pyval \<times> rat \<Rightarrow> error + (pyval \<times> rat)"
where
  "fold_pitch_class note_name x =
     (if fst x = PStr ''REST'' then Inr x
      else (case note_name (fst x) of
              Inl e \<Rightarrow> Inl e
            | Inr name \<Rightarrow> Inr (PStr name, snd x)))"

definition format_pair :: "pyval \<times> rat \<Rightarrow> string" where
  "format_pair entry = format_pyval (fst entry) @ '','' @ format_quarterLength (snd entry)"

definition mono_pairs_text ::
  "(pyval \<Rightarrow> error + string) \<Rightarrow> bool \<Rightarrow> part \<Rightarrow> error + string list"
where
  "mono_pairs_text note_name use_pitch_classes p =
     (case (if use_pitch_classes
            then for_each (fold_pitch_class note_name) (encode_note_duration_tuples p)
            else Inr (encode_note_duration_tuples p)) of
        Inl e \<Rightarrow> Inl e
      | Inr note_duration_pairs \<Rightarrow> Inr (map format_pair note_duration_pairs))"

definition prepare_mono_all_fn ::
  "(score \<Rightarrow> error + part option) \<Rightarrow> (pyval \<Rightarrow> error + string) \<Rightarrow> (score \<Rightarrow> key) \<Rightarrow>
   bool \<Rightarrow> bool \<Rightarrow> score \<Rightarrow> error + (string \<times> string list) list"
where
  "prepare_mono_all_fn get_soprano_part note_name analyze soprano_only use_pitch_classes sc =
     (case first_time_signature sc of
        Inl e \<Rightarrow> Inl e
      | Inr ts \<Rightarrow>
          if ts = ''4/4''
          then (let bwv_id = metadata_title sc
                in case standardize_key analyze sc of
                     Inl e \<Rightarrow> Inl e
                   | Inr sc' \<Rightarrow>
                       (let k = analyze sc'
                        in (case (if soprano_only
                                  then (case get_soprano_part sc' of
                                          Inl e \<Rightarrow> Inl e
                                        | Inr sp \<Rightarrow> Inr [sp])
                                  else Inr (map Some (parts sc'))) of
                              Inl e \<Rightarrow> Inl e
                            | Inr parts_local \<Rightarrow>
                                for_each
                                  (\<lambda>p. case mono_pairs_text note_name use_pitch_classes p of
                                          Inl e \<Rightarrow> Inl e
                                        | Inr pairs_text \<Rightarrow>
                                            if soprano_only
                                            then Inr (bwv_id @ ''-'' @ mode k @ ''-soprano-mono'',
                                                      pairs_text)
                                            else Inr (bwv_id @ ''-'' @ mode k @ ''-'' @ part_id p @
                                                      ''-mono'', pairs_text))
                                  (parts sc'))))
          else Inr [])"

subsection \<open>Durations\<close>

text \<open>
  \<^verbatim>\<open>prepare_durations\<close>: \<^verbatim>\<open>map(lambda note: note.quarterLength, part)\<close> iterates the part
  itself, that is the elements the part contains directly.
\<close>

definition durations_text :: "part \<Rightarrow> string list" where
  "durations_text p = map format_quarterLength (map quarterLength (part_elements p))"

definition prepare_durations_fn ::
  "(score \<Rightarrow> key) \<Rightarrow> score \<Rightarrow> error + (string \<times> string list) list"
where
  "prepare_durations_fn analyze sc =
     (case first_time_signature sc of
        Inl e \<Rightarrow> Inl e
      | Inr ts \<Rightarrow>
          if ts = ''4/4''
          then (let bwv_id = metadata_title sc
                in case standardize_key analyze sc of
                     Inl e \<Rightarrow> Inl e
                   | Inr sc' \<Rightarrow>
                       let k = analyze sc'
                       in Inr (map (\<lambda>p. (bwv_id @ ''-'' @ mode k @ ''-'' @ part_id p @ ''-duration'',
                                          durations_text p))
                                   (parts sc')))
          else Inr [])"


section \<open>Vocabulary and output files\<close>

text \<open>
  \<^verbatim>\<open>_process_scores_with\<close>. A unicode string is the list of its code points.
  \<^verbatim>\<open>unichr(i)\<close> is the one-character string of code point \<open>i\<close> and raises
  \<^verbatim>\<open>ValueError\<close> beyond the interpreter's \<^verbatim>\<open>sys.maxunicode\<close>, a parameter. The constants
  \<^verbatim>\<open>START_DELIM\<close>, \<^verbatim>\<open>END_DELIM\<close> and \<^verbatim>\<open>SCRATCH_DIR\<close> come from the module \<^verbatim>\<open>constants\<close>
  and are parameters.
\<close>

type_synonym unicode = "nat list"

definition unichr :: "nat \<Rightarrow> nat \<Rightarrow> error + unicode" where
  "unichr maxunicode i = (if i \<le> maxunicode then Inr [i] else Inl ValueError)"

text \<open>
  The lines from \<^verbatim>\<open>pairs_to_utf = ...\<close> to \<^verbatim>\<open>utf_to_txt[END_DELIM] = 'END'\<close>, on the
  list in which \<^verbatim>\<open>enumerate\<close> visits the set \<^verbatim>\<open>vocabulary\<close>. The codes are pairwise
  different, so the order in which \<^verbatim>\<open>pairs_to_utf.items()\<close> is visited does not change
  \<^verbatim>\<open>utf_to_txt\<close>; the model visits it in the order of insertion.
\<close>

definition build_vocabulary ::
  "nat \<Rightarrow> unicode \<Rightarrow> unicode \<Rightarrow> string list \<Rightarrow>
   error + ((string \<rightharpoonup> unicode) \<times> (unicode \<rightharpoonup> string))"
where
  "build_vocabulary maxunicode START_DELIM END_DELIM vocabulary =
     (case for_each (\<lambda>x. case unichr maxunicode (fst x) of
                            Inl e \<Rightarrow> Inl e
                          | Inr c \<Rightarrow> Inr (snd x, c))
                    (enumerate 0 vocabulary) of
        Inl e \<Rightarrow> Inl e
      | Inr items \<Rightarrow>
          let pairs_to_utf = dict_of items;
              utf_to_txt = dict_of (map (\<lambda>(txt, utf). (utf, txt)) items)
          in Inr (pairs_to_utf, utf_to_txt(START_DELIM \<mapsto> ''START'', END_DELIM \<mapsto> ''END'')))"

text \<open>
  The files of a run: the dictionary dumped to \<^verbatim>\<open>utf_to_txt.json\<close>, the \<^verbatim>\<open>.txt\<close> and
  \<^verbatim>\<open>.utf\<close> files in the order they are written (path and content), and the exception
  that ended the writing, if any.
\<close>

record outputs =
  utf_to_txt_json :: "unicode \<rightharpoonup> string"
  txt_files :: "(string \<times> string) list"
  utf_files :: "(string \<times> unicode) list"
  raised :: "error option"

text \<open>
  \<^verbatim>\<open>'\n'.join(map(pairs_to_utf.get, pairs_text))\<close>: \<^verbatim>\<open>get\<close> returns \<^verbatim>\<open>None\<close> for a
  missing key, which \<^verbatim>\<open>join\<close> refuses.
\<close>

definition encode_unit :: "(string \<rightharpoonup> unicode) \<Rightarrow> string list \<Rightarrow> error + unicode" where
  "encode_unit pairs_to_utf pairs_text =
     (case for_each (\<lambda>t. case pairs_to_utf t of None \<Rightarrow> Inl TypeError | Some c \<Rightarrow> Inr c)
                    pairs_text of
        Inl e \<Rightarrow> Inl e
      | Inr codes \<Rightarrow> Inr (join [10] codes))"

text \<open>
  The loop that writes the files. The \<^verbatim>\<open>.utf\<close> file is opened with the built-in
  \<^verbatim>\<open>open\<close>, whose \<^verbatim>\<open>write\<close> encodes a unicode string as ASCII and raises
  \<^verbatim>\<open>UnicodeEncodeError\<close> on a code point above 127; the file is then left empty.
\<close>

fun write_units ::
  "string \<Rightarrow> (string \<rightharpoonup> unicode) \<Rightarrow> (string \<times> string list) list \<Rightarrow> outputs \<Rightarrow> outputs"
where
  "write_units SCRATCH_DIR pairs_to_utf [] out = out"
| "write_units SCRATCH_DIR pairs_to_utf ((fname, pairs_text) # rest) out =
     (let out_path = SCRATCH_DIR @ ''/'' @ fname;
          out1 = out\<lparr>txt_files := txt_files out @ [(out_path @ ''.txt'', join [CHR 0x0A] pairs_text)]\<rparr>
      in case encode_unit pairs_to_utf pairs_text of
           Inl e \<Rightarrow> out1\<lparr>utf_files := utf_files out1 @ [(out_path @ ''.utf'', [])], raised := Some e\<rparr>
         | Inr u \<Rightarrow>
             if \<forall>c \<in> set u. c < 128
             then write_units SCRATCH_DIR pairs_to_utf rest
                    (out1\<lparr>utf_files := utf_files out1 @ [(out_path @ ''.utf'', u)]\<rparr>)
             else out1\<lparr>utf_files := utf_files out1 @ [(out_path @ ''.utf'', [])],
                       raised := Some UnicodeEncodeError\<rparr>)"

text \<open>
  The units that are kept, \<^verbatim>\<open>plain_text_data\<close>, and all their tokens in the order they
  are added to the set \<^verbatim>\<open>vocabulary\<close>.
\<close>

definition plain_text_data_of :: "(string \<times> string list) list list \<Rightarrow> (string \<times> string list) list" where
  "plain_text_data_of processed_scores = filter (\<lambda>u. snd u \<noteq> []) (concat processed_scores)"

definition vocabulary_tokens :: "(string \<times> string list) list list \<Rightarrow> string list" where
  "vocabulary_tokens processed_scores = concat (map snd (plain_text_data_of processed_scores))"

text \<open>
  The whole function. \<open>fn\<close> is applied to every score of the corpus by the process pool,
  and an exception of \<open>fn\<close> is raised again by \<^verbatim>\<open>p.map\<close>. The order in which Python
  iterates a set is not fixed by the language: \<open>set_order\<close> turns the tokens added to the
  set into the list in which \<^verbatim>\<open>enumerate(vocabulary)\<close> visits them. It is an iteration
  order when it satisfies \<open>is_set_order\<close>.
\<close>

definition is_set_order :: "(string list \<Rightarrow> string list) \<Rightarrow> string list \<Rightarrow> bool" where
  "is_set_order set_order tokens =
     (distinct (set_order tokens) \<and> set (set_order tokens) = set tokens)"

definition process_scores_with ::
  "string \<Rightarrow> nat \<Rightarrow> unicode \<Rightarrow> unicode \<Rightarrow> (string list \<Rightarrow> string list) \<Rightarrow>
   (score \<Rightarrow> error + (string \<times> string list) list) \<Rightarrow> score list \<Rightarrow> error + outputs"
where
  "process_scores_with SCRATCH_DIR maxunicode START_DELIM END_DELIM set_order fn corpus =
     (case for_each fn corpus of
        Inl e \<Rightarrow> Inl e
      | Inr processed_scores \<Rightarrow>
          (let plain_text_data = plain_text_data_of processed_scores;
               vocabulary = set_order (vocabulary_tokens processed_scores)
           in (case build_vocabulary maxunicode START_DELIM END_DELIM vocabulary of
                 Inl e \<Rightarrow> Inl e
               | Inr (pairs_to_utf, utf_to_txt) \<Rightarrow>
                   Inr (write_units SCRATCH_DIR pairs_to_utf plain_text_data
                          \<lparr>utf_to_txt_json = utf_to_txt, txt_files = [], utf_files = [],
                           raised = None\<rparr>))))"

text \<open>
  Reading a file back: the entries separated by a newline, as \<^verbatim>\<open>split('\n')\<close> returns
  them.
\<close>

fun split_on :: "'a \<Rightarrow> 'a list \<Rightarrow> 'a list list" where
  "split_on sep [] = [[]]"
| "split_on sep (c # cs) =
     (if c = sep then [] # split_on sep cs
      else (case split_on sep cs of [] \<Rightarrow> [[c]] | w # ws \<Rightarrow> (c # w) # ws))"

text \<open>The four canonical voice names.\<close>

definition canonical_names :: "string set" where
  "canonical_names = {''Soprano'', ''Alto'', ''Tenor'', ''Bass''}"


section \<open>Example scores\<close>

text \<open>
  Scores on which the functions are evaluated below. All are in 4/4 and are analysed as
  C major, so that the key normalizer transposes them by zero semitones.
\<close>

definition analyze_C_major :: "score \<Rightarrow> key" where
  "analyze_C_major sc = \<lparr>tonic_name = ''C'', mode = ''major''\<rparr>"

text \<open>One voice with a single quarter note.\<close>

definition single_note_score :: score where
  "single_note_score =
     \<lparr>metadata_title = ''bwv1.6'', time_signatures = [''4/4''],
      parts = [\<lparr>part_id = ''Soprano'', part_elements = [Note 60 1]\<rparr>]\<rparr>"

text \<open>A voice with a C4 quarter note followed by an eighth-note rest.\<close>

definition quarter_then_rest :: part where
  "quarter_then_rest = \<lparr>part_id = ''Soprano'', part_elements = [Note 60 1, Rest (1 / 2)]\<rparr>"

text \<open>A voice with a single eighth-note rest.\<close>

definition lone_rest :: part where
  "lone_rest = \<lparr>part_id = ''Soprano'', part_elements = [Rest (1 / 2)]\<rparr>"

text \<open>A voice with a single dotted sixteenth note, and a score that contains it.\<close>

definition dotted_sixteenth :: part where
  "dotted_sixteenth = \<lparr>part_id = ''Soprano'', part_elements = [Note 60 (3 / 8)]\<rparr>"

definition dotted_sixteenth_score :: score where
  "dotted_sixteenth_score =
     \<lparr>metadata_title = ''bwv1.6'', time_signatures = [''4/4''], parts = [dotted_sixteenth]\<rparr>"

text \<open>Two voices, each with one whole note in one measure.\<close>

definition two_voice_score :: score where
  "two_voice_score =
     \<lparr>metadata_title = ''bwv1.6'', time_signatures = [''4/4''],
      parts = [\<lparr>part_id = ''Soprano'', part_elements = [Measure 4 [Note 72 4]]\<rparr>,
               \<lparr>part_id = ''Alto'', part_elements = [Measure 4 [Note 67 4]]\<rparr>]\<rparr>"

text \<open>One voice with one measure that holds two quarter notes and a half rest.\<close>

definition one_measure_score :: score where
  "one_measure_score =
     \<lparr>metadata_title = ''bwv1.6'', time_signatures = [''4/4''],
      parts = [\<lparr>part_id = ''Soprano'',
                part_elements = [Measure 4 [Note 60 1, Note 62 1, Rest 2]]\<rparr>]\<rparr>"

text \<open>One voice with eleven quarter notes of different pitch and a quarter rest.\<close>

definition scale_score :: score where
  "scale_score =
     \<lparr>metadata_title = ''bwv1.6'', time_signatures = [''4/4''],
      parts = [\<lparr>part_id = ''Soprano'',
                part_elements =
                  [Measure 4 [Note 60 1, Note 61 1, Note 62 1, Note 63 1],
                   Measure 4 [Note 64 1, Note 65 1, Note 66 1, Note 67 1],
                   Measure 4 [Note 68 1, Note 69 1, Note 70 1, Rest 1]]\<rparr>]\<rparr>"


section \<open>Properties of the voice canonicalizer\<close>

lemma id_to_name_canonical:
  "id_to_name i = Some n \<Longrightarrow> n \<in> canonical_names"
  by (simp add: id_to_name_def dict_of_def ids_def canonical_names_def split: if_splits)

lemma rename_part_known:
  "part_id p \<in> all_ids \<Longrightarrow>
     \<exists>n. id_to_name (part_id p) = Some n \<and> rename_part p = Inr (p\<lparr>part_id := n\<rparr>)"
  by (auto simp: all_ids_def rename_part_def subscript_def)

lemma for_each_rename_part:
  "list_all (\<lambda>p. part_id p \<in> all_ids) ps \<Longrightarrow>
     \<exists>ps'. for_each rename_part ps = Inr ps'
       \<and> map part_elements ps' = map part_elements ps
       \<and> (\<forall>p \<in> set ps'. part_id p \<in> canonical_names)"
proof (induction ps)
  case Nil
  then show ?case by simp
next
  case (Cons p ps)
  then obtain ps' where ps': "for_each rename_part ps = Inr ps'"
    "map part_elements ps' = map part_elements ps"
    "\<forall>p \<in> set ps'. part_id p \<in> canonical_names"
    by auto
  from Cons.prems obtain n where n: "id_to_name (part_id p) = Some n"
    "rename_part p = Inr (p\<lparr>part_id := n\<rparr>)"
    using rename_part_known by auto
  have "n \<in> canonical_names" using n(1) by (rule id_to_name_canonical)
  with ps' n show ?case by simp
qed

text \<open>
  Claim C5. For every score the voice canonicalizer does one of two things. Either every
  part identifier is in the synonym table, and the score is returned with every part
  identifier replaced by one of Soprano, Alto, Tenor, Bass, the content of the parts
  unchanged. Or some part identifier is outside the table: then \<^verbatim>\<open>None\<close> is returned, the
  score object is left as it was (no part is renamed), and \<^verbatim>\<open>prepare_standard\<close> adds
  nothing to its data set and prints the line that names the skipped score.
\<close>

theorem standardize_part_ids_all_or_nothing:
  "(\<exists>sc'. standardize_part_ids sc = Inr (sc', True)
      \<and> (\<forall>p \<in> set (parts sc). part_id p \<in> all_ids)
      \<and> (\<forall>p \<in> set (parts sc'). part_id p \<in> canonical_names)
      \<and> map part_elements (parts sc') = map part_elements (parts sc))
   \<or> (standardize_part_ids sc = Inr (sc, False)
      \<and> (\<exists>p \<in> set (parts sc). part_id p \<notin> all_ids)
      \<and> prepare_standard_step truth sc (dataset, printed) =
          Inr (dataset,
               printed @ [''Skipping '' @ metadata_title sc @ '', error extracting parts'']))"
proof (cases "list_all (\<lambda>p. part_id p \<in> all_ids) (parts sc)")
  case True
  from for_each_rename_part [OF True] obtain ps' where
    "for_each rename_part (parts sc) = Inr ps'"
    "map part_elements ps' = map part_elements (parts sc)"
    "\<forall>p \<in> set ps'. part_id p \<in> canonical_names" by blast
  with True show ?thesis
    by (simp add: standardize_part_ids_def list_all_iff)
next
  case False
  then show ?thesis
    by (auto simp: standardize_part_ids_def prepare_standard_step_def list_all_iff)
qed

theorem standardize_part_ids_all_or_nothing_witness:
  "standardize_part_ids
     \<lparr>metadata_title = ''bwv1.6'', time_signatures = [''4/4''],
      parts = [\<lparr>part_id = ''S.'', part_elements = [Note 60 1]\<rparr>,
               \<lparr>part_id = ''Bass'', part_elements = [Rest 1]\<rparr>]\<rparr>
   = Inr (\<lparr>metadata_title = ''bwv1.6'', time_signatures = [''4/4''],
      parts = [\<lparr>part_id = ''Soprano'', part_elements = [Note 60 1]\<rparr>,
               \<lparr>part_id = ''Bass'', part_elements = [Rest 1]\<rparr>]\<rparr>, True)
   \<and> ''S.'' \<in> all_ids \<and> ''Bass'' \<in> all_ids
   \<and> ''Soprano'' \<in> canonical_names \<and> ''Bass'' \<in> canonical_names"
  using standardize_part_ids_all_or_nothing [of
     "\<lparr>metadata_title = ''bwv1.6'', time_signatures = [''4/4''],
      parts = [\<lparr>part_id = ''S.'', part_elements = [Note 60 1]\<rparr>,
               \<lparr>part_id = ''Bass'', part_elements = [Rest 1]\<rparr>]\<rparr>" "\<lambda>_. True" "[]" "[]"]
  by (simp add: standardize_part_ids_def all_ids_def id_to_name_def dict_of_def ids_def
      rename_part_def subscript_def canonical_names_def)


section \<open>Properties of the key normalizer\<close>

lemma majors_reach_C:
  "majors name = Some h \<Longrightarrow> transposed_class h name = Some 0"
  by (simp add: majors_def dict_of_def transposed_class_def step_class_def split: if_splits)

lemma minors_reach_A:
  "minors name = Some h \<Longrightarrow> transposed_class h name = Some 9"
  by (simp add: minors_def dict_of_def transposed_class_def step_class_def split: if_splits)

lemma pitches_transpose_element:
  "pitches (transpose_element h e) = map (\<lambda>m. m + h) (pitches e)"
  by (induction e) (simp_all add: map_concat comp_def cong: map_cong)

lemma pitches_transpose_key_signature:
  "pitches (transpose_key_signature h e) = pitches e"
  by (induction e) (simp_all add: comp_def cong: map_cong)

lemma key_signatures_transpose_element:
  "key_signatures (transpose_element h e) = key_signatures e"
  by (induction e) (simp_all add: comp_def cong: map_cong)

lemma key_signatures_transpose_key_signature:
  "key_signatures (transpose_key_signature h e) = map (\<lambda>c. (c + h) mod 12) (key_signatures e)"
  by (induction e) (simp_all add: map_concat comp_def cong: map_cong)

lemma score_pitches_transposed:
  "score_pitches (transpose_key_signatures h (transpose h sc)) =
     map (\<lambda>m. m + h) (score_pitches sc)"
  by (simp add: score_pitches_def transpose_key_signatures_def transpose_def map_concat comp_def
      pitches_transpose_element pitches_transpose_key_signature)

lemma score_key_signatures_transposed:
  "score_key_signatures (transpose_key_signatures h (transpose h sc)) =
     map (\<lambda>c. (c + h) mod 12) (score_key_signatures sc)"
  by (simp add: score_key_signatures_def transpose_key_signatures_def transpose_def map_concat
      comp_def key_signatures_transpose_element key_signatures_transpose_key_signature)

text \<open>
  Claim C4. When the key normalizer accepts a score (it returns a score: the analysed
  mode is major or minor and the tonic is in the table of that mode), there is one number
  of semitones, read from the table at the key analysed before the transposition, such
  that: the original key moved by that number has the pitch class of C when the mode is
  major and of A when the mode is minor; every pitch of the returned score is the
  original pitch moved by that number; and every key signature of the returned score is
  the original one moved by that same number.
\<close>

theorem standardize_key_C_major_or_A_minor:
  assumes "standardize_key analyze sc = Inr tScore"
  shows "\<exists>halfSteps. halfSteps_of (analyze sc) = Inr halfSteps
     \<and> (mode (analyze sc) = ''major''
           \<and> majors (tonic_name (analyze sc)) = Some halfSteps
           \<and> transposed_class halfSteps (tonic_name (analyze sc)) = pitch_class ''C''
        \<or> mode (analyze sc) = ''minor''
           \<and> minors (tonic_name (analyze sc)) = Some halfSteps
           \<and> transposed_class halfSteps (tonic_name (analyze sc)) = pitch_class ''A'')
     \<and> score_pitches tScore = map (\<lambda>m. m + halfSteps) (score_pitches sc)
     \<and> score_key_signatures tScore =
         map (\<lambda>c. (c + halfSteps) mod 12) (score_key_signatures sc)"
proof -
  from assms obtain h where h: "halfSteps_of (analyze sc) = Inr h"
    and t: "tScore = transpose_key_signatures h (transpose h sc)"
    by (auto simp: standardize_key_def split: sum.splits)
  have C: "pitch_class ''C'' = Some 0" and A: "pitch_class ''A'' = Some 9"
    by (simp_all add: step_class_def dict_of_def)
  have moved: "score_pitches tScore = map (\<lambda>m. m + h) (score_pitches sc)"
    "score_key_signatures tScore = map (\<lambda>c. (c + h) mod 12) (score_key_signatures sc)"
    unfolding t by (rule score_pitches_transposed, rule score_key_signatures_transposed)
  show ?thesis
  proof (cases "mode (analyze sc) = ''major''")
    case True
    with h have "majors (tonic_name (analyze sc)) = Some h"
      by (simp add: halfSteps_of_def subscript_def split: option.splits)
    with True h moved C majors_reach_C show ?thesis by auto
  next
    case False
    with h have m: "mode (analyze sc) = ''minor''"
      by (simp add: halfSteps_of_def split: if_splits)
    with False h have "minors (tonic_name (analyze sc)) = Some h"
      by (simp add: halfSteps_of_def subscript_def split: option.splits)
    with m h moved A minors_reach_A show ?thesis by auto
  qed
qed

theorem standardize_key_C_major_or_A_minor_witness:
  "standardize_key (\<lambda>_. \<lparr>tonic_name = ''D'', mode = ''major''\<rparr>)
     \<lparr>metadata_title = ''bwv1.6'', time_signatures = [''4/4''],
      parts = [\<lparr>part_id = ''Soprano'',
                part_elements = [Measure 4 [KeySignature 2, Note 62 2, Rest 2]]\<rparr>]\<rparr>
   = Inr \<lparr>metadata_title = ''bwv1.6'', time_signatures = [''4/4''],
      parts = [\<lparr>part_id = ''Soprano'',
                part_elements = [Measure 4 [KeySignature 0, Note 60 2, Rest 2]]\<rparr>]\<rparr>
   \<and> transposed_class (- 2) ''D'' = pitch_class ''C''"
proof -
  have h: "standardize_key (\<lambda>_. \<lparr>tonic_name = ''D'', mode = ''major''\<rparr>)
     \<lparr>metadata_title = ''bwv1.6'', time_signatures = [''4/4''],
      parts = [\<lparr>part_id = ''Soprano'',
                part_elements = [Measure 4 [KeySignature 2, Note 62 2, Rest 2]]\<rparr>]\<rparr>
   = Inr \<lparr>metadata_title = ''bwv1.6'', time_signatures = [''4/4''],
      parts = [\<lparr>part_id = ''Soprano'',
                part_elements = [Measure 4 [KeySignature 0, Note 60 2, Rest 2]]\<rparr>]\<rparr>"
    by (simp add: standardize_key_def halfSteps_of_def subscript_def majors_def dict_of_def
        transpose_def transpose_key_signatures_def)
  show ?thesis
    using h standardize_key_C_major_or_A_minor [OF h]
    by (simp add: halfSteps_of_def subscript_def majors_def dict_of_def)
qed


section \<open>Evaluation of the formatting functions\<close>

lemma format_quarterLength_values:
  "format_quarterLength 1 = ''1.0''"
  "format_quarterLength (1 / 2) = ''0.5''"
  "format_quarterLength 4 = ''4.0''"
  by code_simp+

lemma halfSteps_of_C_major: "halfSteps_of (analyze_C_major sc) = Inr 0"
  by (simp add: halfSteps_of_def analyze_C_major_def subscript_def majors_def dict_of_def)


section \<open>Properties of the pitch and duration pairs\<close>

text \<open>
  Claim C6, as the code has it. For a voice whose event stream is a C4 quarter note
  followed by an eighth-note rest, the mono-pairs encoder without pitch-class folding
  emits the tokens \<open>60,1.0\<close> and \<open>-1,0.5\<close>: the rest is written with the number \<open>-1\<close>
  that \<^verbatim>\<open>_encode_note_duration_tuples\<close> gives it, not with the word REST.
\<close>

theorem mono_pairs_quarter_then_rest:
  "encode_note_duration_tuples quarter_then_rest = [(PInt 60, 1), (PInt (- 1), 1 / 2)]
   \<and> mono_pairs_text note_name False quarter_then_rest = Inr [''60,1.0'', ''-1,0.5'']"
  by (simp add: mono_pairs_text_def encode_note_duration_tuples_def flat_def notesAndRests_def
      quarter_then_rest_def format_pair_def format_quarterLength_values str_int_def str_nat.simps)

theorem mono_pairs_quarter_then_rest_counterexample:
  "mono_pairs_text (\<lambda>v. Inr ''C'') False quarter_then_rest \<noteq> Inr [''60,1.0'', ''REST,0.5'']"
  by (simp add: mono_pairs_text_def encode_note_duration_tuples_def flat_def notesAndRests_def
      quarter_then_rest_def format_pair_def format_quarterLength_values str_int_def str_nat.simps)

text \<open>
  Claim C7, evaluated on a voice with a single rest. With pitch-class folding the rest
  does not pass through unchanged: the test \<^verbatim>\<open>x[0] == u'REST'\<close> fails on the \<open>-1\<close> that
  the encoder yields for a rest, so the pitch name of \<open>-1\<close> is computed and replaces it
  (or the library's exception ends the run).
\<close>

theorem folding_changes_rest:
  "encode_note_duration_tuples lone_rest = [(PInt (- 1), 1 / 2)]
   \<and> for_each (fold_pitch_class note_name) (encode_note_duration_tuples lone_rest) =
       (case note_name (PInt (- 1)) of
          Inl e \<Rightarrow> Inl e
        | Inr name \<Rightarrow> Inr [(PStr name, 1 / 2)])
   \<and> for_each (fold_pitch_class note_name) (encode_note_duration_tuples lone_rest) \<noteq>
       Inr (encode_note_duration_tuples lone_rest)
   \<and> mono_pairs_text note_name True lone_rest =
       (case note_name (PInt (- 1)) of
          Inl e \<Rightarrow> Inl e
        | Inr name \<Rightarrow> Inr [name @ '',0.5''])"
  by (simp add: mono_pairs_text_def encode_note_duration_tuples_def flat_def notesAndRests_def
      lone_rest_def fold_pitch_class_def format_pair_def format_quarterLength_values
      split: sum.splits)

lemma standardize_key_two_voice_score:
  "standardize_key analyze_C_major two_voice_score = Inr two_voice_score"
  by (simp add: standardize_key_def halfSteps_of_C_major transpose_def
      transpose_key_signatures_def two_voice_score_def)

text \<open>
  Claim C9, evaluated on a score with a Soprano and an Alto voice. In soprano-only mode
  the loop runs over \<^verbatim>\<open>score.parts\<close>, not over the list that holds the soprano part: when
  the call of \<^verbatim>\<open>_get_soprano_part\<close> does not raise, there is one output unit for every
  voice, all under the same output key, and the tokens of the Alto voice are among them.
\<close>

theorem soprano_only_yields_every_voice:
  "prepare_mono_all_fn get_soprano_part note_name analyze_C_major True False two_voice_score =
     (case get_soprano_part two_voice_score of
        Inl e \<Rightarrow> Inl e
      | Inr sp \<Rightarrow> Inr [(''bwv1.6-major-soprano-mono'', [''72,4.0'']),
                      (''bwv1.6-major-soprano-mono'', [''67,4.0''])])"
proof -
  have t: "mono_pairs_text note_name False
             \<lparr>part_id = ''Soprano'', part_elements = [Measure 4 [Note 72 4]]\<rparr> = Inr [''72,4.0'']"
    "mono_pairs_text note_name False
             \<lparr>part_id = ''Alto'', part_elements = [Measure 4 [Note 67 4]]\<rparr> = Inr [''67,4.0'']"
    by (simp_all add: mono_pairs_text_def encode_note_duration_tuples_def flat_def
        notesAndRests_def format_pair_def format_quarterLength_values str_int_def str_nat.simps)
  show ?thesis
    unfolding prepare_mono_all_fn_def standardize_key_two_voice_score
    by (simp add: first_time_signature_def split: sum.splits)
       (simp add: two_voice_score_def t analyze_C_major_def)
qed


section \<open>Properties of the durations\<close>

lemma standardize_key_one_measure_score:
  "standardize_key analyze_C_major one_measure_score = Inr one_measure_score"
  by (simp add: standardize_key_def halfSteps_of_C_major transpose_def
      transpose_key_signatures_def one_measure_score_def)

text \<open>
  Claim C10, evaluated on a voice with one measure that holds three events. The
  duration-only encoder iterates the part, not \<^verbatim>\<open>part.flat.notesAndRests\<close>: it yields one
  token, the duration of the measure, where the event stream of the voice has three
  events of durations 1, 1 and 2.
\<close>

theorem durations_of_measures_not_events:
  "prepare_durations_fn analyze_C_major one_measure_score =
     Inr [(''bwv1.6-major-Soprano-duration'', [''4.0''])]
   \<and> map (map snd \<circ> encode_note_duration_tuples) (parts one_measure_score) = [[1, 1, 2]]"
proof -
  have "prepare_durations_fn analyze_C_major one_measure_score =
     Inr [(''bwv1.6-major-Soprano-duration'', [''4.0''])]"
    unfolding prepare_durations_fn_def standardize_key_one_measure_score
    by (simp add: first_time_signature_def)
       (simp add: one_measure_score_def durations_text_def format_quarterLength_values
          analyze_C_major_def)
  moreover have "map (map snd \<circ> encode_note_duration_tuples) (parts one_measure_score) = [[1, 1, 2]]"
    by (simp add: one_measure_score_def encode_note_duration_tuples_def flat_def notesAndRests_def)
  ultimately show ?thesis by simp
qed


section \<open>Properties of the constant timestep encoder\<close>

lemma for_each_Inl: "for_each f xs = Inl e \<Longrightarrow> \<exists>x \<in> set xs. f x = Inl e"
  by (induction xs) (auto split: sum.splits)

lemma event_frames_error: "event_frames start_sym fpc nd = Inl e \<Longrightarrow> e = TypeError"
  by (cases start_sym; cases "fst nd") (auto simp: event_frames_def)

lemma repeated_frames_length:
  assumes "1 \<le> fpc * dur"
  shows "int (Suc (length (repeated_frames fpc note dur))) = \<lfloor>fpc * dur\<rfloor>"
proof -
  from assms have "1 \<le> \<lfloor>fpc * dur\<rfloor>" by (simp add: le_floor_iff)
  with assms show ?thesis
    by (simp add: repeated_frames_def py_range_def py_int_def)
qed

lemma three_halves_not_integer: "(4::rat) * (3 / 8) \<notin> \<int>"
proof
  assume "(4::rat) * (3 / 8) \<in> \<int>"
  then obtain z where "(4::rat) * (3 / 8) = of_int z" by (auto elim: Ints_cases)
  then have "(of_int 3 :: rat) = of_int (2 * z)" by simp
  then have "(3::int) = 2 * z" by (simp only: of_int_eq_iff)
  then show False by presburger
qed

lemma standardize_key_dotted_sixteenth_score:
  "standardize_key analyze_C_major dotted_sixteenth_score = Inr dotted_sixteenth_score"
  by (simp add: standardize_key_def halfSteps_of_C_major transpose_def
      transpose_key_signatures_def dotted_sixteenth_score_def dotted_sixteenth_def)

lemma standardize_key_single_note_score:
  "standardize_key analyze_C_major single_note_score = Inr single_note_score"
  by (simp add: standardize_key_def halfSteps_of_C_major transpose_def
      transpose_key_signatures_def single_note_score_def)

text \<open>
  The assertion refuses a voice exactly when some encoded event has fewer than one
  frame, and an event with at least one frame is expanded, when the start marker can be
  added to the note, to the number of frames rounded down.
\<close>

lemma constant_t_assertion_refuses:
  "(\<exists>msg. constant_t_pairs_text start_sym fpc p = Inl (AssertionError msg))
     \<longleftrightarrow> (\<exists>nd \<in> set (encode_note_duration_tuples p). fpc * snd nd < 1)"
proof (cases "\<exists>nd \<in> set (encode_note_duration_tuples p). fpc * snd nd < 1")
  case True
  then show ?thesis by (auto simp: constant_t_pairs_text_def Let_def)
next
  case False
  have "constant_t_pairs_text start_sym fpc p \<noteq> Inl (AssertionError msg)" for msg
  proof
    assume h: "constant_t_pairs_text start_sym fpc p = Inl (AssertionError msg)"
    with False have "for_each (event_frames start_sym fpc) (encode_note_duration_tuples p)
        = Inl (AssertionError msg)"
      by (auto simp: constant_t_pairs_text_def Let_def not_less split: sum.splits if_splits)
    then obtain nd where "event_frames start_sym fpc nd = Inl (AssertionError msg)"
      using for_each_Inl by blast
    then show False using event_frames_error by blast
  qed
  with False show ?thesis by blast
qed

lemma event_frames_length:
  assumes "event_frames start_sym fpc (note, dur) = Inr frames" and "1 \<le> fpc * dur"
  shows "int (length frames) = \<lfloor>fpc * dur\<rfloor>"
proof -
  from assms(1) obtain start where "frames = start # repeated_frames fpc note dur"
    by (auto simp: event_frames_def split: sum.splits)
  with repeated_frames_length [OF assms(2), of "note"] show ?thesis by simp
qed

text \<open>
  Claim C2, evaluated on a 4/4 score whose voice holds a single dotted sixteenth note
  (duration 0.375), at four frames per quarter note. The event has 1.5 frames, which is
  not a whole number, and the encoder does not refuse it: the assertion tests only that
  every event has at least one frame. With a string as start marker the run ends in the
  \<^verbatim>\<open>TypeError\<close> of \<^verbatim>\<open>NOTE_START_SYM + note\<close>, not in the assertion; with a number as
  marker the voice is encoded and the event gets one frame.
\<close>

theorem constant_t_dotted_sixteenth_not_refused:
  "encode_note_duration_tuples dotted_sixteenth = [(PInt 60, 3 / 8)]
   \<and> (4::rat) * (3 / 8) \<notin> \<int>
   \<and> prepare_mono_all_constant_t_fn (PStr s) 4 analyze_C_major dotted_sixteenth_score
       = Inl TypeError
   \<and> prepare_mono_all_constant_t_fn (PInt k) 4 analyze_C_major dotted_sixteenth_score
       = Inr [(''bwv1.6-major-Soprano-mono-all'', [PInt (k + 60)])]"
proof -
  have e: "encode_note_duration_tuples dotted_sixteenth = [(PInt 60, 3 / 8)]"
    by (simp add: encode_note_duration_tuples_def flat_def notesAndRests_def dotted_sixteenth_def)
  have r: "repeated_frames 4 (PInt 60) (3 / 8) = []"
    by (simp add: repeated_frames_def py_range_def py_int_def)
  have t: "constant_t_pairs_text (PStr s) 4 dotted_sixteenth = Inl TypeError"
    "constant_t_pairs_text (PInt k) 4 dotted_sixteenth = Inr [PInt (k + 60)]"
    by (simp_all add: constant_t_pairs_text_def e event_frames_def r)
  have i: "part_id dotted_sixteenth = ''Soprano''"
    by (simp add: dotted_sixteenth_def)
  have f: "prepare_mono_all_constant_t_fn (PStr s) 4 analyze_C_major dotted_sixteenth_score
       = Inl TypeError"
    "prepare_mono_all_constant_t_fn (PInt k) 4 analyze_C_major dotted_sixteenth_score
       = Inr [(''bwv1.6-major-Soprano-mono-all'', [PInt (k + 60)])]"
    unfolding prepare_mono_all_constant_t_fn_def standardize_key_dotted_sixteenth_score
    by (simp_all add: first_time_signature_def)
       (simp_all add: dotted_sixteenth_score_def t analyze_C_major_def i)
  show ?thesis
    using three_halves_not_integer e f by simp
qed

text \<open>
  Claim C8, evaluated on its own input: a 4/4 score with one voice that holds a single
  quarter note, four frames per quarter note. The note is encoded by its MIDI number, and
  \<^verbatim>\<open>NOTE_START_SYM + note\<close> adds a string and a number: the encoder raises \<^verbatim>\<open>TypeError\<close>
  whatever string the start marker is, and no token is emitted. (With a number as marker
  the sum is a number, followed by three repeats of the bare note.)
\<close>

theorem constant_t_single_note_raises:
  "prepare_mono_all_constant_t_fn (PStr s) 4 analyze_C_major single_note_score = Inl TypeError
   \<and> prepare_mono_all_constant_t_fn (PInt k) 4 analyze_C_major single_note_score =
       Inr [(''bwv1.6-major-Soprano-mono-all'', [PInt (k + 60), PInt 60, PInt 60, PInt 60])]"
proof -
  have e: "encode_note_duration_tuples \<lparr>part_id = ''Soprano'', part_elements = [Note 60 1]\<rparr>
      = [(PInt 60, 1)]"
    by (simp add: encode_note_duration_tuples_def flat_def notesAndRests_def)
  have r: "repeated_frames 4 (PInt 60) 1 = [PInt 60, PInt 60, PInt 60]"
    by (simp add: repeated_frames_def py_range_def py_int_def upto.simps)
  have t: "constant_t_pairs_text (PStr s) 4 \<lparr>part_id = ''Soprano'', part_elements = [Note 60 1]\<rparr>
      = Inl TypeError"
    "constant_t_pairs_text (PInt k) 4 \<lparr>part_id = ''Soprano'', part_elements = [Note 60 1]\<rparr>
      = Inr [PInt (k + 60), PInt 60, PInt 60, PInt 60]"
    by (simp_all add: constant_t_pairs_text_def e event_frames_def r)
  show ?thesis
    unfolding prepare_mono_all_constant_t_fn_def standardize_key_single_note_score
    by (simp add: first_time_signature_def)
       (simp add: single_note_score_def t analyze_C_major_def)
qed


section \<open>Properties of the vocabulary and the output files\<close>

lemma foldl_update_map_add:
  "foldl (\<lambda>m kv. m(fst kv \<mapsto> snd kv)) m kvs = m ++ map_of (rev kvs)"
proof (induction kvs arbitrary: m)
  case Nil
  show ?case by simp
next
  case (Cons kv kvs)
  have "foldl (\<lambda>m kv. m(fst kv \<mapsto> snd kv)) (m(fst kv \<mapsto> snd kv)) kvs
      = m(fst kv \<mapsto> snd kv) ++ map_of (rev kvs)"
    by (rule Cons.IH)
  also have "m(fst kv \<mapsto> snd kv) = m ++ map_of [kv]"
    by (cases kv) simp
  also have "m ++ map_of [kv] ++ map_of (rev kvs) = m ++ map_of (rev (kv # kvs))"
    by (simp only: rev.simps map_of_append map_add_assoc)
  finally show ?case by simp
qed

lemma dict_of_map_of_rev: "dict_of kvs = map_of (rev kvs)"
  by (simp add: dict_of_def foldl_update_map_add)

lemma map_of_rev_distinct:
  "distinct (map fst kvs) \<Longrightarrow> map_of (rev kvs) = map_of kvs"
  by (rule map_of_inject_set [THEN iffD2]) (simp_all add: rev_map [symmetric])

lemma dict_of_distinct: "distinct (map fst kvs) \<Longrightarrow> dict_of kvs = map_of kvs"
  by (simp add: dict_of_map_of_rev map_of_rev_distinct)

lemma for_each_unichr_enumerate:
  "n + length xs \<le> Suc maxunicode \<Longrightarrow>
   for_each (\<lambda>x. case unichr maxunicode (fst x) of Inl e \<Rightarrow> Inl e | Inr c \<Rightarrow> Inr (snd x, c))
     (enumerate n xs) = Inr (zip xs (map (\<lambda>i. [i]) [n..<n + length xs]))"
proof (induction xs arbitrary: n)
  case Nil
  show ?case by simp
next
  case (Cons x xs)
  from Cons.prems have "Suc n + length xs \<le> Suc maxunicode" by simp
  note IH = Cons.IH [OF this]
  have u: "[n..<n + length (x # xs)] = n # [Suc n..<Suc n + length xs]"
    by (simp add: upt_rec)
  from Cons.prems have c: "unichr maxunicode n = Inr [n]" by (simp add: unichr_def)
  show ?case
    unfolding u using IH c by (simp del: upt_Suc)
qed

lemma build_vocabulary_eq:
  assumes "distinct vocabulary" and "length vocabulary \<le> Suc maxunicode"
  shows "build_vocabulary maxunicode START_DELIM END_DELIM vocabulary =
     Inr (map_of (zip vocabulary (map (\<lambda>i. [i]) [0..<length vocabulary])),
          (map_of (zip (map (\<lambda>i. [i]) [0..<length vocabulary]) vocabulary))
            (START_DELIM \<mapsto> ''START'', END_DELIM \<mapsto> ''END''))"
proof -
  let ?codes = "map (\<lambda>i. [i]) [0..<length vocabulary]"
  have items: "for_each (\<lambda>x. case unichr maxunicode (fst x) of Inl e \<Rightarrow> Inl e | Inr c \<Rightarrow> Inr (snd x, c))
     (enumerate 0 vocabulary) = Inr (zip vocabulary ?codes)"
    using for_each_unichr_enumerate [of 0 vocabulary maxunicode] assms(2) by simp
  have d1: "distinct (map fst (zip vocabulary ?codes))"
    using assms(1) by simp
  have swap: "map (\<lambda>(txt, utf). (utf, txt)) (zip vocabulary ?codes) = zip ?codes vocabulary"
    by (simp add: zip_commute [of ?codes vocabulary] prod.case_eq_if)
  have "distinct ?codes" by (simp add: distinct_map inj_on_def)
  then have d2: "distinct (map fst (zip ?codes vocabulary))" by simp
  show ?thesis
    unfolding build_vocabulary_def items
    by (simp add: swap dict_of_distinct [OF d1] dict_of_distinct [OF d2] del: map_of_zip_map)
qed

text \<open>
  When the two sentinel keys \<^verbatim>\<open>START_DELIM\<close> and \<^verbatim>\<open>END_DELIM\<close> are different from each
  other and from the codes \<^verbatim>\<open>unichr(0)\<close>, ..., \<^verbatim>\<open>unichr(N - 1)\<close> of the enumeration,
  \<^verbatim>\<open>utf_to_txt\<close> has \<open>N + 2\<close> entries and is, apart from the two sentinel entries, the
  inverse of \<^verbatim>\<open>pairs_to_utf\<close>.
\<close>

lemma build_vocabulary_reserved_sentinels:
  assumes dist: "distinct vocabulary"
    and cap: "length vocabulary \<le> Suc maxunicode"
    and se: "START_DELIM \<noteq> END_DELIM"
    and res: "\<forall>i < length vocabulary. START_DELIM \<noteq> [i] \<and> END_DELIM \<noteq> [i]"
  shows "\<exists>pairs_to_utf utf_to_txt.
      build_vocabulary maxunicode START_DELIM END_DELIM vocabulary = Inr (pairs_to_utf, utf_to_txt)
    \<and> card (dom utf_to_txt) = card (set vocabulary) + 2
    \<and> dom pairs_to_utf = set vocabulary
    \<and> inj_on pairs_to_utf (set vocabulary)
    \<and> (\<forall>t \<in> set vocabulary. \<exists>c. pairs_to_utf t = Some c \<and> length c = 1
           \<and> utf_to_txt c = Some t \<and> c \<noteq> START_DELIM \<and> c \<noteq> END_DELIM)
    \<and> (\<forall>c t. utf_to_txt c = Some t \<longrightarrow>
           c = START_DELIM \<and> t = ''START'' \<or> c = END_DELIM \<and> t = ''END''
           \<or> pairs_to_utf t = Some c)
    \<and> utf_to_txt START_DELIM = Some ''START''
    \<and> utf_to_txt END_DELIM = Some ''END''"
proof -
  let ?N = "length vocabulary"
  let ?codes = "map (\<lambda>i. [i]) [0..<?N]"
  let ?p = "map_of (zip vocabulary ?codes)"
  let ?base = "map_of (zip ?codes vocabulary)"
  let ?u = "?base(START_DELIM \<mapsto> ''START'', END_DELIM \<mapsto> ''END'')"
  have len: "length vocabulary = length ?codes" by simp
  have dcodes: "distinct ?codes" by (simp add: distinct_map inj_on_def)
  have S: "START_DELIM \<notin> set ?codes" and E: "END_DELIM \<notin> set ?codes"
    using res by auto
  have b: "build_vocabulary maxunicode START_DELIM END_DELIM vocabulary = Inr (?p, ?u)"
    using dist cap by (rule build_vocabulary_eq)
  have p_nth: "?p (vocabulary ! i) = Some [i]" if "i < ?N" for i
    using map_of_zip_nth [OF len dist, of i] that by simp
  have u_nth: "?base [i] = Some (vocabulary ! i)" if "i < ?N" for i
    using map_of_zip_nth [OF len [symmetric] dcodes, of i] that by simp
  have dom_p: "dom ?p = set vocabulary"
    by (rule dom_map_of_zip [OF len])
  have dom_base: "dom ?base = set ?codes"
    by (rule dom_map_of_zip [OF len [symmetric]])
  have c0: "card (dom ?u) = card (insert END_DELIM (insert START_DELIM (set ?codes)))"
    by (simp only: dom_fun_upd dom_base option.distinct if_False)
  have c1: "card (insert END_DELIM (insert START_DELIM (set ?codes))) = card (set ?codes) + 2"
    using S E se by simp
  have c2: "card (set ?codes) = ?N"
    using distinct_card [OF dcodes] by simp
  have c3: "card (set vocabulary) = ?N"
    using dist by (rule distinct_card)
  have card_u: "card (dom ?u) = card (set vocabulary) + 2"
    by (simp only: c0 c1 c2 c3)
  have inj: "inj_on ?p (set vocabulary)"
  proof (rule inj_onI)
    fix s t assume "s \<in> set vocabulary" "t \<in> set vocabulary" and eq: "?p s = ?p t"
    then obtain i j where i: "i < ?N" "s = vocabulary ! i" and j: "j < ?N" "t = vocabulary ! j"
      by (auto simp: in_set_conv_nth)
    with eq p_nth [of i] p_nth [of j] have "i = j" by simp
    with i j show "s = t" by simp
  qed
  have fwd: "\<exists>c. ?p t = Some c \<and> length c = 1 \<and> ?u c = Some t \<and> c \<noteq> START_DELIM \<and> c \<noteq> END_DELIM"
    if "t \<in> set vocabulary" for t
  proof -
    from that obtain i where i: "i < ?N" "t = vocabulary ! i" by (auto simp: in_set_conv_nth)
    from i res have ne: "[i] \<noteq> START_DELIM" "[i] \<noteq> END_DELIM" by auto
    with i p_nth [of i] u_nth [of i] show ?thesis by auto
  qed
  have bwd: "c = START_DELIM \<and> t = ''START'' \<or> c = END_DELIM \<and> t = ''END'' \<or> ?p t = Some c"
    if "?u c = Some t" for c t
  proof (cases "c = END_DELIM \<or> c = START_DELIM")
    case True
    with that se show ?thesis by (auto split: if_splits)
  next
    case False
    with that have u0: "?base c = Some t" by simp
    then have "c \<in> set ?codes" using dom_base by blast
    then obtain i where i: "i < ?N" "c = [i]" by auto
    with u0 u_nth [of i] have "t = vocabulary ! i" by simp
    with i p_nth [of i] show ?thesis by simp
  qed
  have S': "?u START_DELIM = Some ''START''" and E': "?u END_DELIM = Some ''END''"
    using se by simp_all
  from b card_u dom_p inj fwd bwd S' E' show ?thesis by blast
qed

lemma split_on_not_Nil: "split_on sep xs \<noteq> []"
  by (induction xs) (auto split: list.splits)

lemma length_split_on: "length (split_on sep xs) = Suc (count_list xs sep)"
  by (induction xs) (auto simp: split_on_not_Nil split: list.splits)

lemma count_list_join_codes:
  "\<forall>c \<in> set cs. length c = 1 \<Longrightarrow>
     count_list (join [sep] cs) sep = (length cs - 1) + count_list cs [sep]"
  by (induction cs rule: induct_list012) (auto simp: length_Suc_conv split: if_splits)

lemma count_list_join_tokens:
  "\<forall>t \<in> set ts. sep \<notin> set t \<Longrightarrow> count_list (join [sep] ts) sep = length ts - 1"
  by (induction ts rule: induct_list012) (auto simp: count_list_0_iff)

lemma for_each_Inr_map:
  "\<forall>x \<in> set xs. f x = Inr (g x) \<Longrightarrow> for_each f xs = Inr (map g xs)"
  by (induction xs) simp_all

lemma code_of_token:
  assumes "distinct vocabulary" and "i < length vocabulary"
  shows "map_of (zip vocabulary (map (\<lambda>i. [i]) [0..<length vocabulary])) (vocabulary ! i) = Some [i]"
proof -
  have "length vocabulary = length (map (\<lambda>i. [i]) [0..<length vocabulary])" by simp
  from map_of_zip_nth [OF this assms(1)] assms(2)
  have "map_of (zip vocabulary (map (\<lambda>i. [i]) [0..<length vocabulary])) (vocabulary ! i)
      = Some (map (\<lambda>i. [i]) [0..<length vocabulary] ! i)"
    by simp
  with assms(2) show ?thesis by simp
qed

text \<open>
  Claim C3, as the code has it. Let the vocabulary of a run have \<open>N\<close> distinct tokens,
  visited by \<^verbatim>\<open>enumerate\<close> in any order, with \<open>N\<close> not above the number of one-character
  codes (\<^verbatim>\<open>sys.maxunicode + 1\<close>). Then the vocabulary builder succeeds and gives the token
  numbered \<open>i\<close> the one-character code \<^verbatim>\<open>unichr(i)\<close>: every token has exactly one code and
  different tokens have different codes. The keys of \<^verbatim>\<open>utf_to_txt\<close> are these \<open>N\<close> codes
  and the two sentinel keys \<^verbatim>\<open>START_DELIM\<close> and \<^verbatim>\<open>END_DELIM\<close>. The sentinel entries are
  assigned last and without a check: \<^verbatim>\<open>END_DELIM\<close> maps to END, \<^verbatim>\<open>START_DELIM\<close> maps to
  START unless it is \<^verbatim>\<open>END_DELIM\<close>, and a code maps back to its token when it is neither
  sentinel key. The dictionary has exactly \<open>N + 2\<close> entries if and only if the two
  sentinel keys are different from each other and from the \<open>N\<close> codes.
\<close>

theorem build_vocabulary_entries:
  assumes dist: "distinct vocabulary"
    and cap: "length vocabulary \<le> Suc maxunicode"
  shows "\<exists>pairs_to_utf utf_to_txt.
      build_vocabulary maxunicode START_DELIM END_DELIM vocabulary = Inr (pairs_to_utf, utf_to_txt)
    \<and> dom pairs_to_utf = set vocabulary
    \<and> inj_on pairs_to_utf (set vocabulary)
    \<and> (\<forall>i < length vocabulary. pairs_to_utf (vocabulary ! i) = Some [i])
    \<and> dom utf_to_txt =
         insert END_DELIM (insert START_DELIM ((\<lambda>i. [i]) ` {..<length vocabulary}))
    \<and> utf_to_txt END_DELIM = Some ''END''
    \<and> (START_DELIM \<noteq> END_DELIM \<longrightarrow> utf_to_txt START_DELIM = Some ''START'')
    \<and> (\<forall>i < length vocabulary. [i] \<noteq> START_DELIM \<and> [i] \<noteq> END_DELIM \<longrightarrow>
           utf_to_txt [i] = Some (vocabulary ! i))
    \<and> (card (dom utf_to_txt) = card (set vocabulary) + 2 \<longleftrightarrow>
           START_DELIM \<noteq> END_DELIM
           \<and> (\<forall>i < length vocabulary. START_DELIM \<noteq> [i] \<and> END_DELIM \<noteq> [i]))"
proof -
  let ?N = "length vocabulary"
  let ?codes = "map (\<lambda>i. [i]) [0..<?N]"
  let ?C = "(\<lambda>i. [i]) ` {..<?N}"
  let ?p = "map_of (zip vocabulary ?codes)"
  let ?base = "map_of (zip ?codes vocabulary)"
  let ?u = "?base(START_DELIM \<mapsto> ''START'', END_DELIM \<mapsto> ''END'')"
  have len: "length vocabulary = length ?codes" by simp
  have dcodes: "distinct ?codes" by (simp add: distinct_map inj_on_def)
  have setC: "set ?codes = ?C" by (simp add: atLeast0LessThan)
  have b: "build_vocabulary maxunicode START_DELIM END_DELIM vocabulary = Inr (?p, ?u)"
    using dist cap by (rule build_vocabulary_eq)
  have p_nth: "?p (vocabulary ! i) = Some [i]" if "i < ?N" for i
    using that by (rule code_of_token [OF dist])
  have base_nth: "?base [i] = Some (vocabulary ! i)" if "i < ?N" for i
    using map_of_zip_nth [OF len [symmetric] dcodes, of i] that by simp
  have dom_p: "dom ?p = set vocabulary"
    by (rule dom_map_of_zip [OF len])
  have dom_base: "dom ?base = ?C"
    using dom_map_of_zip [OF len [symmetric]] setC by simp
  have dom_u: "dom ?u = insert END_DELIM (insert START_DELIM ?C)"
    by (simp only: dom_fun_upd dom_base option.distinct if_False)
  have inj: "inj_on ?p (set vocabulary)"
  proof (rule inj_onI)
    fix s t assume "s \<in> set vocabulary" "t \<in> set vocabulary" and eq: "?p s = ?p t"
    then obtain i j where i: "i < ?N" "s = vocabulary ! i" and j: "j < ?N" "t = vocabulary ! j"
      by (auto simp: in_set_conv_nth)
    with eq p_nth [of i] p_nth [of j] have "i = j" by simp
    with i j show "s = t" by simp
  qed
  have uE: "?u END_DELIM = Some ''END''" by simp
  have uS: "START_DELIM \<noteq> END_DELIM \<longrightarrow> ?u START_DELIM = Some ''START''" by simp
  have u_nth: "\<forall>i < ?N. [i] \<noteq> START_DELIM \<and> [i] \<noteq> END_DELIM \<longrightarrow> ?u [i] = Some (vocabulary ! i)"
    using base_nth by simp
  have cardC: "card ?C = ?N"
    by (simp add: card_image inj_on_def)
  have cardV: "card (set vocabulary) = ?N"
    using dist by (rule distinct_card)
  have finC: "finite ?C" by simp
  have mem: "x \<in> ?C \<longleftrightarrow> (\<exists>i < ?N. x = [i])" for x by auto
  have card_iff: "card (dom ?u) = card (set vocabulary) + 2 \<longleftrightarrow>
           START_DELIM \<noteq> END_DELIM
           \<and> (\<forall>i < ?N. START_DELIM \<noteq> [i] \<and> END_DELIM \<noteq> [i])"
  proof -
    have "card (insert END_DELIM (insert START_DELIM ?C)) = ?N + 2 \<longleftrightarrow>
        START_DELIM \<noteq> END_DELIM \<and> START_DELIM \<notin> ?C \<and> END_DELIM \<notin> ?C"
      using finC cardC by (auto simp: card_insert_if)
    moreover have "START_DELIM \<notin> ?C \<and> END_DELIM \<notin> ?C \<longleftrightarrow>
        (\<forall>i < ?N. START_DELIM \<noteq> [i] \<and> END_DELIM \<noteq> [i])"
      using mem by blast
    ultimately show ?thesis unfolding dom_u cardV by blast
  qed
  from b dom_p inj p_nth dom_u uE uS u_nth card_iff show ?thesis by blast
qed

theorem build_vocabulary_entries_witness:
  "distinct [''60,1.0'', ''-1,0.5'']
   \<and> length [''60,1.0'', ''-1,0.5''] \<le> Suc 65535
   \<and> (\<exists>pairs_to_utf utf_to_txt.
         build_vocabulary 65535 [57344] [57345] [''60,1.0'', ''-1,0.5''] =
           Inr (pairs_to_utf, utf_to_txt)
         \<and> dom pairs_to_utf = {''60,1.0'', ''-1,0.5''}
         \<and> pairs_to_utf ''-1,0.5'' = Some [1]
         \<and> utf_to_txt [1] = Some ''-1,0.5''
         \<and> card (dom utf_to_txt) = 4)"
proof -
  have h1: "distinct [''60,1.0'', ''-1,0.5'']" by simp
  have h2: "length [''60,1.0'', ''-1,0.5''] \<le> Suc 65535" by simp
  have "\<exists>pairs_to_utf utf_to_txt.
         build_vocabulary 65535 [57344] [57345] [''60,1.0'', ''-1,0.5''] =
           Inr (pairs_to_utf, utf_to_txt)
         \<and> dom pairs_to_utf = {''60,1.0'', ''-1,0.5''}
         \<and> pairs_to_utf ''-1,0.5'' = Some [1]
         \<and> utf_to_txt [1] = Some ''-1,0.5''
         \<and> card (dom utf_to_txt) = 4"
    using build_vocabulary_entries [OF h1 h2, of "[57344]" "[57345]"]
  proof (elim exE conjE)
    fix p u
    assume b: "build_vocabulary 65535 [57344] [57345] [''60,1.0'', ''-1,0.5''] = Inr (p, u)"
      and d: "dom p = set [''60,1.0'', ''-1,0.5'']"
      and pn: "\<forall>i < length [''60,1.0'', ''-1,0.5'']. p ([''60,1.0'', ''-1,0.5''] ! i) = Some [i]"
      and un: "\<forall>i < length [''60,1.0'', ''-1,0.5'']. [i] \<noteq> [57344] \<and> [i] \<noteq> [57345] \<longrightarrow>
           u [i] = Some ([''60,1.0'', ''-1,0.5''] ! i)"
      and c: "card (dom u) = card (set [''60,1.0'', ''-1,0.5'']) + 2 \<longleftrightarrow>
           [57344] \<noteq> [57345::nat]
           \<and> (\<forall>i < length [''60,1.0'', ''-1,0.5'']. [57344] \<noteq> [i] \<and> [57345] \<noteq> [i])"
    from d have d': "dom p = {''60,1.0'', ''-1,0.5''}" by simp
    from pn have "1 < length [''60,1.0'', ''-1,0.5''] \<longrightarrow>
        p ([''60,1.0'', ''-1,0.5''] ! 1) = Some [1]"
      by (rule spec)
    then have p1: "p ''-1,0.5'' = Some [1]" by simp
    from un have "1 < length [''60,1.0'', ''-1,0.5''] \<longrightarrow>
        ([1::nat] \<noteq> [57344] \<and> [1::nat] \<noteq> [57345] \<longrightarrow>
           u [1] = Some ([''60,1.0'', ''-1,0.5''] ! 1))"
      by (rule spec)
    then have u1: "u [1] = Some ''-1,0.5''" by simp
    have r: "\<forall>i < length [''60,1.0'', ''-1,0.5'']. [57344] \<noteq> [i] \<and> [57345] \<noteq> [i]" by auto
    have s: "card (set [''60,1.0'', ''-1,0.5'']) + 2 = 4" by simp
    have n: "[57344] \<noteq> [57345::nat]" by simp
    from c r n have "card (dom u) = card (set [''60,1.0'', ''-1,0.5'']) + 2" by blast
    then have c': "card (dom u) = 4" unfolding s .
    from b d' p1 u1 c' show ?thesis by blast
  qed
  with h1 h2 show ?thesis by (intro conjI)
qed

theorem build_vocabulary_entries_counterexample:
  "build_vocabulary 65535 [0] [57345] [''60,1.0''] =
     Inr ([''60,1.0'' \<mapsto> [0]], [[0] \<mapsto> ''START'', [57345] \<mapsto> ''END''])
   \<and> card (dom (snd (projr (build_vocabulary 65535 [0] [57345] [''60,1.0'']))))
       = card (set [''60,1.0'']) + 1
   \<and> snd (projr (build_vocabulary 65535 [0] [57345] [''60,1.0''])) [0] = Some ''START''"
proof -
  have b: "build_vocabulary 65535 [0] [57345] [''60,1.0''] =
     Inr ([''60,1.0'' \<mapsto> [0]], [[0] \<mapsto> ''START'', [57345] \<mapsto> ''END''])"
    by (simp add: build_vocabulary_def enumerate_eq_zip unichr_def dict_of_def)
  show ?thesis unfolding b by simp
qed

text \<open>
  The code \<^verbatim>\<open>unichr(10)\<close> is the newline character. In whatever order the set is
  iterated, a vocabulary of more than ten tokens gives it to one token, and the
  \<^verbatim>\<open>.utf\<close> file of an output unit in which that token occurs has more newline-separated
  entries than the unit has tokens; the \<^verbatim>\<open>.txt\<close> file has as many lines as the unit has
  tokens when no token contains a newline.
\<close>

lemma utf_entries_exceed_tokens:
  assumes dist: "distinct vocabulary"
    and cap: "length vocabulary \<le> Suc maxunicode"
    and big: "10 < length vocabulary"
    and voc: "build_vocabulary maxunicode START_DELIM END_DELIM vocabulary =
                Inr (pairs_to_utf, utf_to_txt)"
    and sub: "set pairs_text \<subseteq> set vocabulary"
    and occ: "vocabulary ! 10 \<in> set pairs_text"
  shows "\<exists>u. encode_unit pairs_to_utf pairs_text = Inr u
             \<and> length pairs_text < length (split_on 10 u)"
proof -
  define g where "g t = the (pairs_to_utf t)" for t
  from voc build_vocabulary_eq [OF dist cap, of START_DELIM END_DELIM]
  have p: "pairs_to_utf = map_of (zip vocabulary (map (\<lambda>i. [i]) [0..<length vocabulary]))"
    by simp
  have tok: "\<exists>i. pairs_to_utf t = Some [i]" if "t \<in> set pairs_text" for t
  proof -
    from that sub have "t \<in> set vocabulary" by blast
    then obtain i where "i < length vocabulary" "t = vocabulary ! i"
      by (auto simp: in_set_conv_nth)
    with code_of_token [OF dist, of i] show ?thesis unfolding p by blast
  qed
  have f: "for_each (\<lambda>t. case pairs_to_utf t of None \<Rightarrow> Inl TypeError | Some c \<Rightarrow> Inr c)
             pairs_text = Inr (map g pairs_text)"
  proof (rule for_each_Inr_map, rule ballI)
    fix t assume "t \<in> set pairs_text"
    with tok obtain i where "pairs_to_utf t = Some [i]" by blast
    then show "(case pairs_to_utf t of None \<Rightarrow> Inl TypeError | Some c \<Rightarrow> Inr c) = Inr (g t)"
      by (simp add: g_def)
  qed
  have single: "\<forall>c \<in> set (map g pairs_text). length c = 1"
  proof
    fix c assume "c \<in> set (map g pairs_text)"
    then obtain t where t: "t \<in> set pairs_text" "c = g t" by auto
    with tok obtain i where "pairs_to_utf t = Some [i]" by blast
    with t show "length c = 1" by (simp add: g_def)
  qed
  have "pairs_to_utf (vocabulary ! 10) = Some [10]"
    using code_of_token [OF dist big] unfolding p .
  then have "g (vocabulary ! 10) = [10]" by (simp add: g_def)
  with occ have "[10] \<in> set (map g pairs_text)" by force
  then have c: "0 < count_list (map g pairs_text) [10]"
    using count_list_0_iff [of "map g pairs_text" "[10]"] by (cases "count_list (map g pairs_text) [10]") blast+
  from occ have ne: "0 < length (map g pairs_text)" by (cases pairs_text) auto
  have e: "encode_unit pairs_to_utf pairs_text = Inr (join [10] (map g pairs_text))"
    by (simp add: encode_unit_def f)
  have "length (split_on 10 (join [10] (map g pairs_text)))
      = Suc ((length (map g pairs_text) - 1) + count_list (map g pairs_text) [10])"
    by (simp only: length_split_on count_list_join_codes [OF single])
  with c ne have "length pairs_text < length (split_on 10 (join [10] (map g pairs_text)))"
    by simp
  with e show ?thesis by blast
qed

lemma txt_entries_equal_tokens:
  assumes "pairs_text \<noteq> []" and "\<forall>t \<in> set pairs_text. sep \<notin> set t"
  shows "length (split_on sep (join [sep] pairs_text)) = length pairs_text"
  using assms count_list_join_tokens [OF assms(2)]
  by (cases pairs_text) (simp_all add: length_split_on)

lemma standardize_key_scale_score:
  "standardize_key analyze_C_major scale_score = Inr scale_score"
  by (simp add: standardize_key_def halfSteps_of_C_major transpose_def
      transpose_key_signatures_def scale_score_def)

lemma prepare_mono_all_fn_scale_score:
  "prepare_mono_all_fn get_soprano_part note_name analyze_C_major False False scale_score =
     Inr [(''bwv1.6-major-Soprano-mono'',
           [''60,1.0'', ''61,1.0'', ''62,1.0'', ''63,1.0'', ''64,1.0'', ''65,1.0'', ''66,1.0'',
            ''67,1.0'', ''68,1.0'', ''69,1.0'', ''70,1.0'', ''-1,1.0''])]"
proof -
  have t: "mono_pairs_text note_name False
             \<lparr>part_id = ''Soprano'',
              part_elements =
                [Measure 4 [Note 60 1, Note 61 1, Note 62 1, Note 63 1],
                 Measure 4 [Note 64 1, Note 65 1, Note 66 1, Note 67 1],
                 Measure 4 [Note 68 1, Note 69 1, Note 70 1, Rest 1]]\<rparr> =
      Inr [''60,1.0'', ''61,1.0'', ''62,1.0'', ''63,1.0'', ''64,1.0'', ''65,1.0'', ''66,1.0'',
           ''67,1.0'', ''68,1.0'', ''69,1.0'', ''70,1.0'', ''-1,1.0'']"
    by (simp add: mono_pairs_text_def encode_note_duration_tuples_def flat_def notesAndRests_def
        format_pair_def format_quarterLength_values str_int_def str_nat.simps)
  show ?thesis
    unfolding prepare_mono_all_fn_def standardize_key_scale_score
    by (simp add: first_time_signature_def) (simp add: scale_score_def t analyze_C_major_def)
qed

text \<open>
  Claim C1, evaluated on a run over one score whose single voice has twelve different
  tokens, with the set iterated in the order of insertion. The eleventh token gets the
  code \<^verbatim>\<open>unichr(10)\<close>, the newline character that also separates the entries of the
  \<^verbatim>\<open>.utf\<close> file: the \<^verbatim>\<open>.txt\<close> file has twelve lines and the \<^verbatim>\<open>.utf\<close> file thirteen
  newline-separated entries.
\<close>

theorem utf_file_newline_code:
  "case process_scores_with ''scratch'' 65535 START_DELIM END_DELIM remdups
          (prepare_mono_all_fn get_soprano_part note_name analyze_C_major False False)
          [scale_score] of
     Inl e \<Rightarrow> False
   | Inr out \<Rightarrow>
       raised out = None
       \<and> map fst (txt_files out) = [''scratch/bwv1.6-major-Soprano-mono.txt'']
       \<and> map fst (utf_files out) = [''scratch/bwv1.6-major-Soprano-mono.utf'']
       \<and> map snd (utf_files out) =
           [[0, 10, 1, 10, 2, 10, 3, 10, 4, 10, 5, 10, 6, 10, 7, 10, 8, 10, 9, 10, 10, 10, 11]]
       \<and> map (length \<circ> split_on (CHR 0x0A) \<circ> snd) (txt_files out) = [12]
       \<and> map (length \<circ> split_on 10 \<circ> snd) (utf_files out) = [13]"
  unfolding process_scores_with_def
  by (simp add: prepare_mono_all_fn_scale_score plain_text_data_of_def vocabulary_tokens_def)
     (simp add: build_vocabulary_def enumerate_eq_zip unichr_def dict_of_def upt_rec
        encode_unit_def)

end
